theory Spec2Isabelle
  imports Main "HOL-Library.Sublist" "HOL-Library.AList"
begin

section \<open>Python strings\<close>

text \<open>
  A Python \<open>str\<close> is modelled as a \<open>string\<close>, a list of 8-bit characters: the code points
  0..255 of Python's strings. Everything below that classifies characters (white space,
  digits, what JSON escapes) is Python's rule restricted to these code points.
\<close>

abbreviation (input) NL :: char where "NL \<equiv> CHR 0x0A"
abbreviation (input) DQ :: char where "DQ \<equiv> CHR 0x22"
abbreviation (input) BS :: char where "BS \<equiv> CHR 0x5C"

text \<open>\<open>str.isspace\<close> on one character: 0x09-0x0D, 0x1C-0x20, 0x85 and 0xA0.\<close>

definition is_space :: "char \<Rightarrow> bool" where
  "is_space c = (c \<in> set [CHR 0x09, CHR 0x0A, CHR 0x0B, CHR 0x0C, CHR 0x0D, CHR 0x1C, CHR 0x1D,
                          CHR 0x1E, CHR 0x1F, CHR 0x20, CHR 0x85, CHR 0xA0])"

text \<open>\<open>s.strip()\<close>: white space removed at both ends.\<close>

definition lstrip :: "string \<Rightarrow> string" where
  "lstrip s = dropWhile is_space s"

definition rstrip :: "string \<Rightarrow> string" where
  "rstrip s = rev (dropWhile is_space (rev s))"

definition strip :: "string \<Rightarrow> string" where
  "strip s = rstrip (lstrip s)"

text \<open>\<open>s.split(sep)\<close> for a one-character separator: always at least one piece.\<close>

fun split_char :: "char \<Rightarrow> string \<Rightarrow> string list" where
  "split_char sep [] = [[]]"
| "split_char sep (c # cs) =
     (if c = sep then [] # split_char sep cs
      else (case split_char sep cs of
              [] \<Rightarrow> [[c]]
            | l # ls \<Rightarrow> (c # l) # ls))"

text \<open>\<open>sep.join(parts)\<close>.\<close>

fun join :: "string \<Rightarrow> string list \<Rightarrow> string" where
  "join sep [] = []"
| "join sep [x] = x"
| "join sep (x # y # ys) = x @ sep @ join sep (y # ys)"

text \<open>
  The first occurrence of a literal: what \<open>re.search\<close> finds for a pattern that starts with
  the literal \<open>pat\<close>. The result is the text before the occurrence and the text after it.
\<close>

fun split_first :: "string \<Rightarrow> string \<Rightarrow> (string \<times> string) option" where
  "split_first pat [] = (if pat = [] then Some ([], []) else None)"
| "split_first pat (c # cs) =
     (if prefix pat (c # cs) then Some ([], drop (length pat) (c # cs))
      else map_option (\<lambda>(b, a). (c # b, a)) (split_first pat cs))"

text \<open>
  A lazy group \<open>(.*?)\<close> under \<open>re.DOTALL\<close> that is followed by a lookahead
  \<open>(?=p1|...|pn|\Z)\<close>: the shortest text after which one of the literals starts or the
  string ends. The result is the group and the text left after it.
\<close>

fun lazy_until :: "string list \<Rightarrow> string \<Rightarrow> string \<times> string" where
  "lazy_until ps [] = ([], [])"
| "lazy_until ps (c # cs) =
     (if list_ex (\<lambda>p. prefix p (c # cs)) ps then ([], c # cs)
      else (case lazy_until ps cs of (a, b) \<Rightarrow> (c # a, b)))"

text \<open>
  \<open>s.replace(old, new)\<close>: every occurrence of \<open>old\<close>, left to right, without overlap.
  For an empty \<open>old\<close> Python puts \<open>new\<close> before every character and at the end.
\<close>

function replace_from :: "string \<Rightarrow> string \<Rightarrow> string \<Rightarrow> string" where
  "replace_from old new [] = []"
| "replace_from old new (c # cs) =
     (if old \<noteq> [] \<and> prefix old (c # cs)
      then new @ replace_from old new (drop (length old) (c # cs))
      else c # replace_from old new cs)"
  by pat_completeness auto
termination
  by (relation "measure (\<lambda>(old, new, s). length s)") auto

definition replace :: "string \<Rightarrow> string \<Rightarrow> string \<Rightarrow> string" where
  "replace old new s =
     (if old = [] then new @ concat (map (\<lambda>c. c # new) s) else replace_from old new s)"

text \<open>
  \<open>f.read()\<close> on a file opened with \<open>open(path, 'r')\<close>: the text mode translates the
  line endings, so a carriage return with a line feed behind it, and a carriage return
  alone, are read as one line feed. Writing (on a POSIX system) stores the text as it is.
\<close>

abbreviation (input) CR :: char where "CR \<equiv> CHR 0x0D"

fun read_text :: "string \<Rightarrow> string" where
  "read_text [] = []"
| "read_text [c] = (if c = CR then [NL] else [c])"
| "read_text (c # d # ds) =
     (if c = CR \<and> d = NL then NL # read_text ds
      else if c = CR then NL # read_text (d # ds)
      else c # read_text (d # ds))"

section \<open>The JSON arrays of the frontmatter\<close>

text \<open>
  \<open>json.dumps\<close> of a list of strings with the default settings (\<open>ensure_ascii\<close>, items
  separated by a comma and a space): the quote and the backslash are escaped, so are the
  control characters, and every character outside \<open>' '..'~'\<close> is written \<open>\u00XX\<close>.
\<close>

definition hex_digit :: "nat \<Rightarrow> char" where
  "hex_digit n = (if n < 10 then char_of (48 + n) else char_of (87 + n))"

definition escape_char :: "char \<Rightarrow> string" where
  "escape_char c =
     (if c = DQ then [BS, DQ]
      else if c = BS then [BS, BS]
      else if c = NL then [BS, CHR ''n'']
      else if c = CHR 0x0D then [BS, CHR ''r'']
      else if c = CHR 0x09 then [BS, CHR ''t'']
      else if c = CHR 0x08 then [BS, CHR ''b'']
      else if c = CHR 0x0C then [BS, CHR ''f'']
      else if 32 \<le> (of_char c :: nat) \<and> (of_char c :: nat) \<le> 126 then [c]
      else [BS, CHR ''u'', CHR ''0'', CHR ''0'',
            hex_digit ((of_char c :: nat) div 16), hex_digit ((of_char c :: nat) mod 16)])"

definition json_string :: "string \<Rightarrow> string" where
  "json_string s = DQ # concat (map escape_char s) @ [DQ]"

definition json_dumps :: "string list \<Rightarrow> string" where
  "json_dumps xs = ''['' @ join '', '' (map json_string xs) @ '']''"

text \<open>
  \<open>json.loads\<close>, for the texts that are arrays of strings. The decoder skips white space
  (space, tab, line feed, carriage return) between tokens, refuses a raw control character
  inside a string, an unknown escape, a trailing comma and text after the array.
  \<open>None\<close> stands for both ways in which Python leaves the typed model: the decoder raises
  \<open>JSONDecodeError\<close>, or it returns something that is not a list of strings of code points
  below 256 (numbers, nested arrays, an escape \<open>\uXXXX\<close> of a larger code point).
\<close>

definition json_ws :: "char \<Rightarrow> bool" where
  "json_ws c = (c \<in> set [CHR 0x20, CHR 0x09, CHR 0x0A, CHR 0x0D])"

definition skip_ws :: "string \<Rightarrow> string" where
  "skip_ws s = dropWhile json_ws s"

definition hex_val :: "char \<Rightarrow> nat option" where
  "hex_val c =
     (let n = (of_char c :: nat) in
      if 48 \<le> n \<and> n \<le> 57 then Some (n - 48)
      else if 97 \<le> n \<and> n \<le> 102 then Some (n - 87)
      else if 65 \<le> n \<and> n \<le> 70 then Some (n - 55)
      else None)"

definition hex4 :: "char \<Rightarrow> char \<Rightarrow> char \<Rightarrow> char \<Rightarrow> nat option" where
  "hex4 a b c d =
     (case (hex_val a, hex_val b, hex_val c, hex_val d) of
        (Some x, Some y, Some z, Some w) \<Rightarrow> Some (((x * 16 + y) * 16 + z) * 16 + w)
      | _ \<Rightarrow> None)"

definition unescape :: "char \<Rightarrow> char option" where
  "unescape e =
     (if e = DQ then Some DQ
      else if e = BS then Some BS
      else if e = CHR ''/'' then Some (CHR ''/'')
      else if e = CHR ''b'' then Some (CHR 0x08)
      else if e = CHR ''f'' then Some (CHR 0x0C)
      else if e = CHR ''n'' then Some NL
      else if e = CHR ''r'' then Some (CHR 0x0D)
      else if e = CHR ''t'' then Some (CHR 0x09)
      else None)"

text \<open>The text after an opening quote: the decoded string and what follows the closing quote.\<close>

fun scan_string :: "string \<Rightarrow> (string \<times> string) option" where
  "scan_string [] = None"
| "scan_string (c # cs) =
     (if c = DQ then Some ([], cs)
      else if c = BS then
        (case cs of
           [] \<Rightarrow> None
         | e # r \<Rightarrow>
             if e = CHR ''u'' then
               (case r of
                  h1 # h2 # h3 # h4 # r' \<Rightarrow>
                    (case hex4 h1 h2 h3 h4 of
                       None \<Rightarrow> None
                     | Some n \<Rightarrow>
                         if n < 256 then map_option (\<lambda>(s, t). (char_of n # s, t)) (scan_string r')
                         else None)
                | _ \<Rightarrow> None)
             else
               (case unescape e of
                  None \<Rightarrow> None
                | Some d \<Rightarrow> map_option (\<lambda>(s, t). (d # s, t)) (scan_string r)))
      else if (of_char c :: nat) < 32 then None
      else map_option (\<lambda>(s, t). (c # s, t)) (scan_string cs))"

lemma scan_string_shorter: "scan_string s = Some (v, t) \<Longrightarrow> length t < length s"
proof (induction s arbitrary: v t rule: scan_string.induct)
  case 1
  then show ?case by simp
next
  case (2 c cs)
  then show ?case
    by (fastforce split: if_splits list.splits option.splits)
qed

lemma skip_ws_length: "length (skip_ws s) \<le> length s"
  by (simp add: skip_ws_def length_dropWhile_le)

text \<open>The items of a non-empty array, from the first character of an item on.\<close>

function parse_items :: "string \<Rightarrow> (string list \<times> string) option" where
  "parse_items [] = None"
| "parse_items (q # r) =
     (if q \<noteq> DQ then None
      else
        (case scan_string r of
           None \<Rightarrow> None
         | Some (v, t) \<Rightarrow>
             (case skip_ws t of
                [] \<Rightarrow> None
              | d # u \<Rightarrow>
                  if d = CHR '']'' then Some ([v], u)
                  else if d = CHR '','' then
                    map_option (\<lambda>(vs, w). (v # vs, w)) (parse_items (skip_ws u))
                  else None)))"
  by pat_completeness auto
termination
proof (relation "measure length", goal_cases)
  case 1
  then show ?case by simp
next
  case (2 q r x2 v t d u)
  have "length (skip_ws u) \<le> length u"
    by (rule skip_ws_length)
  moreover have "length (d # u) \<le> length t"
    using skip_ws_length [of t] 2 by simp
  moreover have "length t < length r"
  proof -
    from 2 have "scan_string r = Some (v, t)" by simp
    then show ?thesis by (rule scan_string_shorter)
  qed
  ultimately show ?case by simp
qed

definition json_loads :: "string \<Rightarrow> string list option" where
  "json_loads s =
     (case skip_ws s of
        [] \<Rightarrow> None
      | b # r \<Rightarrow>
          if b \<noteq> CHR ''['' then None
          else
            (case skip_ws r of
               [] \<Rightarrow> None
             | d # u \<Rightarrow>
                 if d = CHR '']'' then (if skip_ws u = [] then Some [] else None)
                 else
                   (case parse_items (d # u) of
                      None \<Rightarrow> None
                    | Some (vs, w) \<Rightarrow> if skip_ws w = [] then Some vs else None)))"

section \<open>Tasks and the record codec\<close>

text \<open>
  A comment of the thread is a dictionary with the keys \<open>timestamp\<close>, \<open>agent\<close> and
  \<open>message\<close>; a task is the dataclass \<open>Task\<close>. The field \<open>id\<close> is called \<open>task_id\<close> here.
  The annotations of the dataclass are taken as the types of the fields: scalar fields hold
  strings, list fields hold lists of strings, \<open>prd\<close>, \<open>plan\<close> and \<open>pr\<close> hold a string or
  \<open>None\<close>.
\<close>

record Comment =
  timestamp :: string
  agent :: string
  message :: string

record Task =
  task_id :: string
  title :: string
  description :: string
  status :: string
  priority :: string
  assigned :: "string list"
  subscribers :: "string list"
  tags :: "string list"
  created :: string
  updated :: string
  prd :: "string option"
  plan :: "string option"
  pr :: "string option"
  thread :: "Comment list"

text \<open>
  What the code raises. \<open>OutsideModel\<close> is not an exception of Python: it marks the inputs
  on which Python would go on with a value that the typed record cannot hold (a scalar
  field given as an array, a list field given as plain text, an array with items other
  than strings of code points below 256) or on which \<open>json.loads\<close> raises.
\<close>

datatype error =
    ValueError string
  | FileNotFoundError string
  | TypeError string
  | OutsideModel string

text \<open>The truth value of an optional link: \<open>None\<close> and the empty string are false.\<close>

definition truthy :: "string option \<Rightarrow> bool" where
  "truthy v = (case v of None \<Rightarrow> False | Some s \<Rightarrow> s \<noteq> [])"

definition opt_line :: "string \<Rightarrow> string option \<Rightarrow> string list" where
  "opt_line key v = (if truthy v then [key @ '': '' @ the v] else [])"

definition fm_lines :: "Task \<Rightarrow> string list" where
  "fm_lines t =
     [''---'',
      ''id: '' @ task_id t,
      ''title: '' @ title t,
      ''status: '' @ status t,
      ''priority: '' @ priority t,
      ''created: '' @ created t,
      ''updated: '' @ updated t,
      ''assigned: '' @ json_dumps (assigned t),
      ''subscribers: '' @ json_dumps (subscribers t),
      ''tags: '' @ json_dumps (tags t)]
     @ opt_line ''prd'' (prd t) @ opt_line ''plan'' (plan t) @ opt_line ''pr'' (pr t)
     @ [''---'']"

definition comment_lines :: "Comment \<Rightarrow> string list" where
  "comment_lines c = [''### '' @ timestamp c @ '' - '' @ agent c, message c, []]"

definition body_lines :: "Task \<Rightarrow> string list" where
  "body_lines t =
     [[], ''# '' @ title t, [], ''## Description'', description t, []]
     @ (if thread t \<noteq> [] then [''## Thread'', []] @ concat (map comment_lines (thread t))
        else [])"

definition to_markdown :: "Task \<Rightarrow> string" where
  "to_markdown t = join [NL] (fm_lines t @ body_lines t)"

text \<open>
  The frontmatter dictionary of \<open>from_markdown\<close>: a value is the stripped text of the line
  after its first colon, or the parsed array when that text starts with a bracket. A later
  line with the same key replaces an earlier one.
\<close>

datatype fmvalue = Str string | Arr "string list"

fun parse_frontmatter ::
  "string list \<Rightarrow> (string \<rightharpoonup> fmvalue) \<Rightarrow> error + (string \<rightharpoonup> fmvalue)" where
  "parse_frontmatter [] fm = Inr fm"
| "parse_frontmatter (line # lines) fm =
     (if CHR '':'' \<in> set line then
        (let key = strip (takeWhile (\<lambda>c. c \<noteq> CHR '':'') line);
             val = strip (tl (dropWhile (\<lambda>c. c \<noteq> CHR '':'') line))
         in if prefix ''['' val then
              (case json_loads val of
                 None \<Rightarrow> Inl (OutsideModel val)
               | Some xs \<Rightarrow> parse_frontmatter lines (fm(key \<mapsto> Arr xs)))
            else parse_frontmatter lines (fm(key \<mapsto> Str val)))
      else parse_frontmatter lines fm)"

definition get_str :: "(string \<rightharpoonup> fmvalue) \<Rightarrow> string \<Rightarrow> string \<Rightarrow> error + string" where
  "get_str fm key dflt =
     (case fm key of
        None \<Rightarrow> Inr dflt
      | Some (Str v) \<Rightarrow> Inr v
      | Some (Arr xs) \<Rightarrow> Inl (OutsideModel key))"

definition get_list :: "(string \<rightharpoonup> fmvalue) \<Rightarrow> string \<Rightarrow> error + string list" where
  "get_list fm key =
     (case fm key of
        None \<Rightarrow> Inr []
      | Some (Arr xs) \<Rightarrow> Inr xs
      | Some (Str v) \<Rightarrow> Inl (OutsideModel key))"

definition get_opt :: "(string \<rightharpoonup> fmvalue) \<Rightarrow> string \<Rightarrow> error + string option" where
  "get_opt fm key =
     (case fm key of
        None \<Rightarrow> Inr None
      | Some (Str v) \<Rightarrow> Inr (Some v)
      | Some (Arr xs) \<Rightarrow> Inl (OutsideModel key))"

definition bind :: "error + 'a \<Rightarrow> ('a \<Rightarrow> error + 'b) \<Rightarrow> error + 'b" where
  "bind r f = (case r of Inl e \<Rightarrow> Inl e | Inr v \<Rightarrow> f v)"

text \<open>
  The comments of the thread: \<open>re.findall\<close> of
  \<open>### ([\d\-:T]+) - ([^\n]+)\n(.*?)(?=\n### |\Z)\<close>. The class of the first group has no
  blank, so the group is the longest run of its characters and a blank must follow; the
  second group is the rest of the line, which must be non-empty and end in a line feed.
\<close>

definition is_ts :: "char \<Rightarrow> bool" where
  "is_ts c = (c \<in> set ''0123456789-:T'')"

definition match_comment :: "string \<Rightarrow> (Comment \<times> string) option" where
  "match_comment s =
     (if prefix ''### '' s then
        (let r1 = drop 4 s;
             ts = takeWhile is_ts r1;
             r2 = dropWhile is_ts r1
         in if ts \<noteq> [] \<and> prefix '' - '' r2 then
              (let r3 = drop 3 r2;
                   ag = takeWhile (\<lambda>c. c \<noteq> NL) r3;
                   r4 = dropWhile (\<lambda>c. c \<noteq> NL) r3
               in if ag \<noteq> [] \<and> r4 \<noteq> [] then
                    (case lazy_until [''\<newline>### ''] (tl r4) of
                       (msg, rest) \<Rightarrow>
                         Some (\<lparr>timestamp = ts, agent = ag, message = msg\<rparr>, rest))
                  else None)
            else None)
      else None)"

lemma lazy_until_length: "length (snd (lazy_until ps s)) \<le> length s"
  by (induction ps s rule: lazy_until.induct) (auto split: prod.splits)

lemma match_comment_shorter: "match_comment s = Some (c, rest) \<Longrightarrow> length rest < length s"
proof -
  assume m: "match_comment s = Some (c, rest)"
  then have p: "prefix ''### '' s"
    by (simp add: match_comment_def split: if_splits)
  define r1 where "r1 = drop 4 s"
  define r2 where "r2 = dropWhile is_ts r1"
  define r3 where "r3 = drop 3 r2"
  define r4 where "r4 = dropWhile (\<lambda>c. c \<noteq> NL) r3"
  from m p have "rest = snd (lazy_until [''\<newline>### ''] (tl r4))"
    by (auto simp: match_comment_def Let_def r1_def r2_def r3_def r4_def
             split: if_splits prod.splits)
  moreover have "length (snd (lazy_until [''\<newline>### ''] (tl r4))) \<le> length (tl r4)"
    by (rule lazy_until_length)
  ultimately have "length rest \<le> length (tl r4)"
    by simp
  also have "\<dots> \<le> length r4" by simp
  also have "\<dots> \<le> length r3" by (simp add: r4_def length_dropWhile_le)
  also have "\<dots> \<le> length r2" by (simp add: r3_def)
  also have "\<dots> \<le> length r1" by (simp add: r2_def length_dropWhile_le)
  also have "\<dots> < length s" using p by (auto simp: r1_def prefix_def)
  finally show ?thesis .
qed

function find_comments :: "string \<Rightarrow> Comment list" where
  "find_comments [] = []"
| "find_comments (c # cs) =
     (case match_comment (c # cs) of
        Some (m, rest) \<Rightarrow> m\<lparr>message := strip (message m)\<rparr> # find_comments rest
      | None \<Rightarrow> find_comments cs)"
  by pat_completeness auto
termination
proof (relation "measure length", goal_cases)
  case 1
  then show ?case by simp
next
  case (2 c cs)
  then show ?case by simp
next
  case (3 c cs x2 m rest)
  then have "match_comment (c # cs) = Some (m, rest)" by simp
  then show ?case using match_comment_shorter by fastforce
qed

text \<open>
  \<open>Task.from_markdown\<close>, on the text of the file; the path is what the error message
  names. The frontmatter is what stands between the leading \<open>---\<close> line and the first
  \<open>---\<close> line after it; the thread is searched in the body from the first
  \<open>## Thread\<close> header on, the description runs from the first \<open>## Description\<close> header
  to the next level-two header.
\<close>

definition parse_thread :: "string \<Rightarrow> Comment list" where
  "parse_thread body =
     (case split_first ''## Thread\<newline>\<newline>'' body of
        None \<Rightarrow> []
      | Some (before, thread_text) \<Rightarrow> find_comments thread_text)"

definition parse_description :: "string \<Rightarrow> string" where
  "parse_description body =
     (case split_first ''## Description\<newline>'' body of
        None \<Rightarrow> []
      | Some (before, rest) \<Rightarrow> strip (fst (lazy_until [''\<newline>## ''] rest)))"

definition build_task :: "(string \<rightharpoonup> fmvalue) \<Rightarrow> string \<Rightarrow> Comment list \<Rightarrow> error + Task" where
  "build_task fm desc thr =
     bind (get_str fm ''id'' []) (\<lambda>v_id.
     bind (get_str fm ''title'' []) (\<lambda>v_title.
     bind (get_str fm ''status'' ''inbox'') (\<lambda>v_status.
     bind (get_str fm ''priority'' ''P2'') (\<lambda>v_priority.
     bind (get_list fm ''assigned'') (\<lambda>v_assigned.
     bind (get_list fm ''subscribers'') (\<lambda>v_subscribers.
     bind (get_list fm ''tags'') (\<lambda>v_tags.
     bind (get_str fm ''created'' []) (\<lambda>v_created.
     bind (get_str fm ''updated'' []) (\<lambda>v_updated.
     bind (get_opt fm ''prd'') (\<lambda>v_prd.
     bind (get_opt fm ''plan'') (\<lambda>v_plan.
     bind (get_opt fm ''pr'') (\<lambda>v_pr.
       Inr \<lparr>task_id = v_id, title = v_title, description = desc, status = v_status,
            priority = v_priority, assigned = v_assigned, subscribers = v_subscribers,
            tags = v_tags, created = v_created, updated = v_updated,
            prd = v_prd, plan = v_plan, pr = v_pr, thread = thr\<rparr>))))))))))))"

definition from_markdown :: "string \<Rightarrow> string \<Rightarrow> error + Task" where
  "from_markdown filepath content =
     (if prefix ''---\<newline>'' content then
        (case split_first ''\<newline>---\<newline>'' (drop 4 content) of
           None \<Rightarrow> Inl (ValueError (''Invalid task file format: '' @ filepath))
         | Some (fm_text, body) \<Rightarrow>
             bind (parse_frontmatter (split_char NL fm_text) Map.empty) (\<lambda>fm.
               build_task fm (parse_description body) (parse_thread body)))
      else Inl (ValueError (''Invalid task file format: '' @ filepath)))"

section \<open>The workspace\<close>

text \<open>
  The state that \<open>TaskManager\<close> and \<open>NotificationManager\<close> read and write:
  \<^item> \<open>dirs\<close>: for the name of a status, the listing of \<open>tasks/<status>\<close> as \<open>os.listdir\<close>
    gives it, file names with their text, or \<open>None\<close> when the directory does not exist.
    The order of a listing is the file system's, not the code's; the model keeps a
    rewritten file at its place and puts a new file last.
  \<^item> \<open>activity_log\<close>: the text of \<open>activity.log\<close> (empty when the file is not there yet);
  \<^item> \<open>notifications\<close>: the text of \<open>notifications.md\<close>, \<open>None\<close> when the file is absent;
  \<^item> \<open>clock\<close>, \<open>ticks\<close>: \<open>datetime.now().isoformat()\<close> gives \<open>clock ticks\<close> and moves
    \<open>ticks\<close> on, so successive readings may differ.
  A task id is the stem of a file name; an id with a path separator is outside the model.
\<close>

record world =
  workspace :: string
  dirs :: "string \<Rightarrow> (string \<times> string) list option"
  activity_log :: string
  notifications :: "string option"
  clock :: "nat \<Rightarrow> string"
  ticks :: nat

definition now :: "world \<Rightarrow> string \<times> world" where
  "now w = (clock w (ticks w), w\<lparr>ticks := Suc (ticks w)\<rparr>)"

definition statuses :: "string list" where
  "statuses = [''inbox'', ''in-discovery'', ''in-planning'', ''ready-to-build'', ''in-progress'',
               ''ready-for-testing'', ''in-qa'', ''ready-to-deploy'', ''deployed'', ''blocked'']"

text \<open>\<open>os.path.join\<close> of two components.\<close>

definition path_join :: "string \<Rightarrow> string \<Rightarrow> string" where
  "path_join a b =
     (if prefix ''/'' b then b
      else if a = [] \<or> suffix ''/'' a then a @ b
      else a @ ''/'' @ b)"

definition task_path :: "world \<Rightarrow> string \<Rightarrow> string \<Rightarrow> string" where
  "task_path w st name = path_join (path_join (path_join (workspace w) ''tasks'') st) name"

definition lookup_file :: "world \<Rightarrow> string \<Rightarrow> string \<Rightarrow> string option" where
  "lookup_file w st name = (case dirs w st of None \<Rightarrow> None | Some d \<Rightarrow> map_of d name)"

text \<open>\<open>open(path, 'w')\<close> and \<open>write\<close>: fails when the directory is missing.\<close>

definition write_file :: "world \<Rightarrow> string \<Rightarrow> string \<Rightarrow> string \<Rightarrow> error + world" where
  "write_file w st name content =
     (case dirs w st of
        None \<Rightarrow> Inl (FileNotFoundError (task_path w st name))
      | Some d \<Rightarrow> Inr (w\<lparr>dirs := (dirs w)(st \<mapsto> AList.update name content d)\<rparr>))"

text \<open>\<open>os.remove(path)\<close>.\<close>

definition remove_file :: "world \<Rightarrow> string \<Rightarrow> string \<Rightarrow> error + world" where
  "remove_file w st name =
     (case lookup_file w st name of
        None \<Rightarrow> Inl (FileNotFoundError (task_path w st name))
      | Some content \<Rightarrow> Inr (w\<lparr>dirs := (dirs w)(st \<mapsto> AList.delete name (the (dirs w st)))\<rparr>))"

text \<open>\<open>TaskManager.log_activity\<close>: one line appended to the activity log.\<close>

definition log_activity :: "world \<Rightarrow> string \<Rightarrow> string \<Rightarrow> world" where
  "log_activity w who msg =
     (case now w of
        (stamp, w1) \<Rightarrow>
          w1\<lparr>activity_log := activity_log w1 @ stamp @ '' | '' @ who @ '' | '' @ msg @ [NL]\<rparr>)"

section \<open>Task ids\<close>












section \<open>The task store\<close>


text \<open>
  \<open>_find_task_file\<close> returns the path of the first status directory that holds
  \<open><id>.md\<close>; the model returns the status of that directory.
\<close>

definition find_task_file :: "world \<Rightarrow> string \<Rightarrow> string option" where
  "find_task_file w tid = List.find (\<lambda>st. lookup_file w st (tid @ ''.md'') \<noteq> None) statuses"

definition read_task :: "world \<Rightarrow> string \<Rightarrow> string \<Rightarrow> error + Task" where
  "read_task w st name =
     (case lookup_file w st name of
        None \<Rightarrow> Inl (FileNotFoundError (task_path w st name))
      | Some content \<Rightarrow> from_markdown (task_path w st name) (read_text content))"

definition find_task :: "world \<Rightarrow> string \<Rightarrow> error + Task option" where
  "find_task w tid =
     (case find_task_file w tid of
        None \<Rightarrow> Inr None
      | Some st \<Rightarrow> bind (read_task w st (tid @ ''.md'')) (\<lambda>t. Inr (Some t)))"

text \<open>
  The keyword arguments of \<open>update_task\<close>: names with values. \<open>hasattr(task, key)\<close> holds
  for the fourteen fields and for the two methods of the class; \<open>setattr\<close> on a method
  name puts the value in front of the method. Names of the form \<open>__x__\<close> may or may not
  be attributes, which depends on the Python at hand, and a value whose type is not the
  field's is outside the typed record. The names \<open>self\<close> and \<open>task_id\<close> cannot be passed:
  Python refuses the call.
\<close>

datatype pyval = PNone | PStr string | PList "string list" | PThread "Comment list"

definition set_attr :: "Task \<Rightarrow> string \<Rightarrow> pyval \<Rightarrow> error + Task" where
  "set_attr t key v =
     (if key = ''id'' then (case v of PStr s \<Rightarrow> Inr (t\<lparr>task_id := s\<rparr>) | _ \<Rightarrow> Inl (OutsideModel key))
      else if key = ''title'' then (case v of PStr s \<Rightarrow> Inr (t\<lparr>title := s\<rparr>) | _ \<Rightarrow> Inl (OutsideModel key))
      else if key = ''description'' then (case v of PStr s \<Rightarrow> Inr (t\<lparr>description := s\<rparr>) | _ \<Rightarrow> Inl (OutsideModel key))
      else if key = ''status'' then (case v of PStr s \<Rightarrow> Inr (t\<lparr>status := s\<rparr>) | _ \<Rightarrow> Inl (OutsideModel key))
      else if key = ''priority'' then (case v of PStr s \<Rightarrow> Inr (t\<lparr>priority := s\<rparr>) | _ \<Rightarrow> Inl (OutsideModel key))
      else if key = ''assigned'' then (case v of PList xs \<Rightarrow> Inr (t\<lparr>assigned := xs\<rparr>) | _ \<Rightarrow> Inl (OutsideModel key))
      else if key = ''subscribers'' then (case v of PList xs \<Rightarrow> Inr (t\<lparr>subscribers := xs\<rparr>) | _ \<Rightarrow> Inl (OutsideModel key))
      else if key = ''tags'' then (case v of PList xs \<Rightarrow> Inr (t\<lparr>tags := xs\<rparr>) | _ \<Rightarrow> Inl (OutsideModel key))
      else if key = ''created'' then (case v of PStr s \<Rightarrow> Inr (t\<lparr>created := s\<rparr>) | _ \<Rightarrow> Inl (OutsideModel key))
      else if key = ''updated'' then (case v of PStr s \<Rightarrow> Inr (t\<lparr>updated := s\<rparr>) | _ \<Rightarrow> Inl (OutsideModel key))
      else if key = ''prd'' then (case v of PStr s \<Rightarrow> Inr (t\<lparr>prd := Some s\<rparr>) | PNone \<Rightarrow> Inr (t\<lparr>prd := None\<rparr>) | _ \<Rightarrow> Inl (OutsideModel key))
      else if key = ''plan'' then (case v of PStr s \<Rightarrow> Inr (t\<lparr>plan := Some s\<rparr>) | PNone \<Rightarrow> Inr (t\<lparr>plan := None\<rparr>) | _ \<Rightarrow> Inl (OutsideModel key))
      else if key = ''pr'' then (case v of PStr s \<Rightarrow> Inr (t\<lparr>pr := Some s\<rparr>) | PNone \<Rightarrow> Inr (t\<lparr>pr := None\<rparr>) | _ \<Rightarrow> Inl (OutsideModel key))
      else if key = ''thread'' then (case v of PThread cs \<Rightarrow> Inr (t\<lparr>thread := cs\<rparr>) | _ \<Rightarrow> Inl (OutsideModel key))
      else Inr t)"

definition field_names :: "string list" where
  "field_names = [''id'', ''title'', ''description'', ''status'', ''priority'', ''assigned'',
                  ''subscribers'', ''tags'', ''created'', ''updated'', ''prd'', ''plan'',
                  ''pr'', ''thread'']"

definition dunder :: "string \<Rightarrow> bool" where
  "dunder key = (prefix ''__'' key \<and> suffix ''__'' key)"

text \<open>
  The loop over the updates: the task after it, and the value that replaced
  \<open>to_markdown\<close>, if one did. Calling that value raises a \<open>TypeError\<close> that names its type.
\<close>

definition type_name :: "pyval \<Rightarrow> string" where
  "type_name v =
     (case v of PNone \<Rightarrow> ''NoneType'' | PStr s \<Rightarrow> ''str'' | PList xs \<Rightarrow> ''list''
      | PThread cs \<Rightarrow> ''list'')"

fun apply_updates ::
  "Task \<Rightarrow> pyval option \<Rightarrow> (string \<times> pyval) list \<Rightarrow> error + (Task \<times> pyval option)" where
  "apply_updates t shadowed [] = Inr (t, shadowed)"
| "apply_updates t shadowed ((key, v) # rest) =
     (if key \<in> set field_names then
        (case set_attr t key v of
           Inl e \<Rightarrow> Inl e
         | Inr t' \<Rightarrow> apply_updates t' shadowed rest)
      else if key = ''to_markdown'' then apply_updates t (Some v) rest
      else if key = ''from_markdown'' then apply_updates t shadowed rest
      else if dunder key then Inl (OutsideModel key)
      else apply_updates t shadowed rest)"

definition update_task ::
  "world \<Rightarrow> string \<Rightarrow> (string \<times> pyval) list \<Rightarrow> world \<times> (error + Task)" where
  "update_task w tid updates =
     (if list_ex (\<lambda>(key, v). key = ''self'' \<or> key = ''task_id'') updates then
        (w, Inl (TypeError ''update_task() got multiple values for an argument''))
      else
        (case find_task_file w tid of
           None \<Rightarrow> (w, Inl (ValueError (''Task '' @ tid @ '' not found'')))
         | Some st \<Rightarrow>
             (case read_task w st (tid @ ''.md'') of
                Inl e \<Rightarrow> (w, Inl e)
              | Inr task \<Rightarrow>
                  (case apply_updates task None updates of
                     Inl e \<Rightarrow> (w, Inl e)
                   | Inr (task1, shadowed) \<Rightarrow>
                       (case now w of
                          (stamp, w1) \<Rightarrow>
                            (let task2 = task1\<lparr>updated := stamp\<rparr> in
                             case shadowed of
                               Some v \<Rightarrow>
                                 (case write_file w1 st (tid @ ''.md'') [] of
                                    Inl e \<Rightarrow> (w1, Inl e)
                                  | Inr w2 \<Rightarrow>
                                      (w2, Inl (TypeError ([CHR 0x27] @ type_name v @ [CHR 0x27]
                                                           @ '' object is not callable''))))
                             | None \<Rightarrow>
                                 (case write_file w1 st (tid @ ''.md'') (to_markdown task2) of
                                    Inl e \<Rightarrow> (w1, Inl e)
                                  | Inr w2 \<Rightarrow> (w2, Inr task2))))))))"

definition move_task :: "world \<Rightarrow> string \<Rightarrow> string \<Rightarrow> world \<times> (error + Task)" where
  "move_task w tid new_status =
     (if new_status \<notin> set statuses then (w, Inl (ValueError (''Invalid status: '' @ new_status)))
      else
        (case find_task_file w tid of
           None \<Rightarrow> (w, Inl (ValueError (''Task '' @ tid @ '' not found'')))
         | Some old_st \<Rightarrow>
             (case read_task w old_st (tid @ ''.md'') of
                Inl e \<Rightarrow> (w, Inl e)
              | Inr task \<Rightarrow>
                  (let old_status = status task in
                   case now w of
                     (stamp, w1) \<Rightarrow>
                       (let task1 = task\<lparr>status := new_status, updated := stamp\<rparr> in
                        case write_file w1 new_status (tid @ ''.md'') (to_markdown task1) of
                          Inl e \<Rightarrow> (w1, Inl e)
                        | Inr w2 \<Rightarrow>
                            (case remove_file w2 old_st (tid @ ''.md'') of
                               Inl e \<Rightarrow> (w2, Inl e)
                             | Inr w3 \<Rightarrow>
                                 (log_activity w3 ''system''
                                    (''Moved '' @ tid @ '' from '' @ old_status @ '' to '' @ new_status),
                                  Inr task1)))))))"

text \<open>
  \<open>TaskManager._notify_subscribers\<close>: one entry per subscriber other than the commenter,
  each put behind every occurrence of the header \<open>## Pending\<close> and its blank line. A
  ledger that does not exist yet starts as a title and a Pending header.
\<close>

definition comment_notif :: "string \<Rightarrow> string \<Rightarrow> Task \<Rightarrow> string \<Rightarrow> string \<Rightarrow> string" where
  "comment_notif whom commenter task msg stamp =
     [NL] @ ''### @'' @ whom @ [NL]
     @ ''From: '' @ commenter @ '' ('' @ task_id task @ '')'' @ [NL]
     @ ''Message: '' @ take 100 msg @ (if length msg > 100 then ''...'' else []) @ [NL]
     @ ''Time: '' @ take 16 stamp @ [NL]
     @ ''Link: workspace/tasks/'' @ status task @ ''/'' @ task_id task @ ''.md'' @ [NL]
     @ [NL]"

fun notify_loop :: "world \<Rightarrow> string \<Rightarrow> string list \<Rightarrow> string \<Rightarrow> Task \<Rightarrow> string \<Rightarrow> world \<times> string" where
  "notify_loop w content [] commenter task msg = (w, content)"
| "notify_loop w content (whom # rest) commenter task msg =
     (case now w of
        (stamp, w1) \<Rightarrow>
          notify_loop w1
            (replace ''## Pending\<newline>\<newline>''
               (''## Pending\<newline>\<newline>'' @ comment_notif whom commenter task msg stamp) content)
            rest commenter task msg)"

definition notify_subscribers :: "world \<Rightarrow> Task \<Rightarrow> string \<Rightarrow> string \<Rightarrow> world" where
  "notify_subscribers w task commenter msg =
     (let to_notify = filter (\<lambda>s. s \<noteq> commenter) (subscribers task) in
      if to_notify = [] then w
      else
        (let content = (case notifications w of
                          Some text \<Rightarrow> read_text text
                        | None \<Rightarrow> ''# Notifications\<newline>\<newline>## Pending\<newline>\<newline>'')
         in case notify_loop w content to_notify commenter task msg of
              (w1, content1) \<Rightarrow> w1\<lparr>notifications := Some content1\<rparr>))"

definition add_comment :: "world \<Rightarrow> string \<Rightarrow> string \<Rightarrow> string \<Rightarrow> world \<times> (error + Task)" where
  "add_comment w tid who msg =
     (case find_task_file w tid of
        None \<Rightarrow> (w, Inl (ValueError (''Task '' @ tid @ '' not found'')))
      | Some st \<Rightarrow>
          (case read_task w st (tid @ ''.md'') of
             Inl e \<Rightarrow> (w, Inl e)
           | Inr task \<Rightarrow>
               (case now w of (stamp, w1) \<Rightarrow>
                  (let comment = \<lparr>timestamp = take 16 stamp, agent = who, message = msg\<rparr>;
                       task1 = task\<lparr>thread := thread task @ [comment]\<rparr>;
                       task2 = (if who \<notin> set (subscribers task1)
                                then task1\<lparr>subscribers := subscribers task1 @ [who]\<rparr>
                                else task1)
                   in case now w1 of (stamp2, w2) \<Rightarrow>
                        (let task3 = task2\<lparr>updated := stamp2\<rparr> in
                         case write_file w2 st (tid @ ''.md'') (to_markdown task3) of
                           Inl e \<Rightarrow> (w2, Inl e)
                         | Inr w3 \<Rightarrow>
                             (notify_subscribers
                                (log_activity w3 who (''Commented on '' @ tid)) task3 who msg,
                              Inr task3))))))"

definition assign_task :: "world \<Rightarrow> string \<Rightarrow> string \<Rightarrow> world \<times> (error + Task)" where
  "assign_task w tid who =
     (case find_task w tid of
        Inl e \<Rightarrow> (w, Inl e)
      | Inr None \<Rightarrow> (w, Inl (ValueError (''Task '' @ tid @ '' not found'')))
      | Inr (Some task) \<Rightarrow>
          (let task1 =
                 (if who \<notin> set (assigned task) then
                    (let t1 = task\<lparr>assigned := assigned task @ [who]\<rparr> in
                     if who \<notin> set (subscribers t1)
                     then t1\<lparr>subscribers := subscribers t1 @ [who]\<rparr>
                     else t1)
                  else task)
           in update_task w tid
                [(''assigned'', PList (assigned task1)),
                 (''subscribers'', PList (subscribers task1))]))"









section \<open>The notification ledger\<close>

text \<open>
  \<open>NotificationManager\<close> works on the same \<open>notifications.md\<close>. Its patterns are built
  from the agent's name, which the model reads as a literal: a name with a character that
  means something in a regular expression is outside the model.
\<close>

definition plain_name :: "string \<Rightarrow> bool" where
  "plain_name s = list_all (\<lambda>c. c \<in> set ''abcdefghijklmnopqrstuvwxyzABCDEFGHIJKLMNOPQRSTUVWXYZ0123456789_-'') s"

text \<open>\<open>_ensure_file_exists\<close>, which the constructor calls.\<close>

definition ensure_file_exists :: "world \<Rightarrow> world" where
  "ensure_file_exists w =
     (case notifications w of
        None \<Rightarrow> w\<lparr>notifications :=
                    Some ''# Notifications\<newline>\<newline>## Pending\<newline>\<newline>## Delivered\<newline>\<newline>''\<rparr>
      | Some text \<Rightarrow> w)"

definition add_notification ::
  "world \<Rightarrow> string \<Rightarrow> string \<Rightarrow> string \<Rightarrow> string option \<Rightarrow> string option \<Rightarrow> error + world" where
  "add_notification w to_agent from_agent msg tid link =
     (case notifications w of
        None \<Rightarrow> Inl (FileNotFoundError (path_join (workspace w) ''notifications.md''))
      | Some content \<Rightarrow>
          (case now w of
             (stamp, w1) \<Rightarrow>
               (let notif =
                      [NL] @ ''### @'' @ to_agent @ [NL]
                      @ ''From: '' @ from_agent
                      @ (if truthy tid then '' ('' @ the tid @ '')'' else []) @ [NL]
                      @ ''Message: '' @ msg @ [NL]
                      @ ''Time: '' @ take 16 stamp @ [NL]
                      @ (if truthy link then ''Link: '' @ the link else []) @ [NL]
                      @ [NL]
                in Inr (w1\<lparr>notifications :=
                          Some (replace ''## Pending\<newline>\<newline>''
                                  (''## Pending\<newline>\<newline>'' @ notif) (read_text content))\<rparr>))))"

text \<open>
  The entries of one agent in a text: \<open>re.findall\<close> of the header \<open>### @<agent>\<close> and its
  line feed, then a lazy group up to the next entry header, the next level-two header or
  the end. The result lists the groups (the text after the header line).
\<close>

lemma lazy_until_rest_shorter:
  assumes "hdr \<noteq> []" and "lazy_until ps (drop (length hdr) (c # cs)) = (body, rest)"
  shows "length rest < Suc (length cs)"
proof -
  have "length rest = length (snd (lazy_until ps (drop (length hdr) (c # cs))))"
    using assms(2) by simp
  also have "\<dots> \<le> length (drop (length hdr) (c # cs))"
    by (rule lazy_until_length)
  also have "\<dots> < Suc (length cs)"
    using assms(1) by (cases hdr) auto
  finally show ?thesis .
qed

function find_entries :: "string \<Rightarrow> string \<Rightarrow> string list" where
  "find_entries hdr [] = []"
| "find_entries hdr (c # cs) =
     (if hdr \<noteq> [] \<and> prefix hdr (c # cs) then
        (case lazy_until [''\<newline>### @'', ''\<newline>## ''] (drop (length hdr) (c # cs)) of
           (body, rest) \<Rightarrow> body # find_entries hdr rest)
      else find_entries hdr cs)"
  by pat_completeness auto
termination
  by (relation "measure (\<lambda>(hdr, s). length s)")
     (auto dest: lazy_until_rest_shorter lazy_until_rest_shorter [OF _ sym])

text \<open>
  \<open>re.search\<close> of a literal followed by a non-empty run of characters of a class: the
  longest run behind the first occurrence of the literal that has one.
\<close>

fun search_run :: "string \<Rightarrow> (char \<Rightarrow> bool) \<Rightarrow> string \<Rightarrow> string option" where
  "search_run lit ok [] = None"
| "search_run lit ok (c # cs) =
     (if prefix lit (c # cs) \<and> takeWhile ok (drop (length lit) (c # cs)) \<noteq> []
      then Some (takeWhile ok (drop (length lit) (c # cs)))
      else search_run lit ok cs)"

text \<open>\<open>re.search\<close> of \<open>\(([^)]+)\)\<close>: the first parenthesis with text up to a closing one.\<close>

fun search_paren :: "string \<Rightarrow> string option" where
  "search_paren [] = None"
| "search_paren (c # cs) =
     (if c = CHR ''('' \<and> takeWhile (\<lambda>x. x \<noteq> CHR '')'') cs \<noteq> []
         \<and> dropWhile (\<lambda>x. x \<noteq> CHR '')'') cs \<noteq> []
      then Some (takeWhile (\<lambda>x. x \<noteq> CHR '')'') cs)
      else search_paren cs)"

text \<open>
  A notification as \<open>get_notifications\<close> returns it: a dictionary that has the keys
  \<open>from\<close>, \<open>task_id\<close>, \<open>message\<close>, \<open>time\<close> and \<open>link\<close> whose fields were found.
\<close>

record notification =
  from_field :: "string option"
  task_id_field :: "string option"
  message_field :: "string option"
  time_field :: "string option"
  link_field :: "string option"

definition parse_notification :: "string \<Rightarrow> notification" where
  "parse_notification m =
     \<lparr>from_field = map_option strip (search_run ''From: '' (\<lambda>c. c \<noteq> NL \<and> c \<noteq> CHR ''('') m),
      task_id_field = search_paren m,
      message_field = map_option strip (search_run ''Message: '' (\<lambda>c. c \<noteq> NL) m),
      time_field = map_option strip (search_run ''Time: '' (\<lambda>c. c \<noteq> NL) m),
      link_field = map_option strip (search_run ''Link: '' (\<lambda>c. c \<noteq> NL) m)\<rparr>"

definition empty_notification :: notification where
  "empty_notification =
     \<lparr>from_field = None, task_id_field = None, message_field = None, time_field = None,
      link_field = None\<rparr>"

text \<open>
  The Pending section: the text between the first \<open>## Pending\<close> header with its blank
  line and the first \<open>## Delivered\<close> after it; none when either is missing.
\<close>

definition pending_section :: "string \<Rightarrow> string option" where
  "pending_section content =
     (case split_first ''## Pending\<newline>\<newline>'' content of
        None \<Rightarrow> None
      | Some (before, rest) \<Rightarrow> map_option fst (split_first ''## Delivered'' rest))"

definition get_notifications :: "world \<Rightarrow> string \<Rightarrow> error + notification list" where
  "get_notifications w who =
     (case notifications w of
        None \<Rightarrow> Inr []
      | Some text \<Rightarrow>
          (case pending_section (read_text text) of
             None \<Rightarrow> Inr []
           | Some pending \<Rightarrow>
               if \<not> plain_name who then Inl (OutsideModel who)
               else Inr (filter (\<lambda>n. n \<noteq> empty_notification)
                           (map parse_notification
                              (find_entries (''### @'' @ who @ [NL]) pending)))))"

text \<open>
  \<open>mark_delivered\<close>: the entries of the agent leave the Pending section (every occurrence
  of their text is cut out) and are put, stamped, in front of the Delivered section. The
  new text starts at the Pending header.
\<close>

fun stamp_delivered :: "world \<Rightarrow> string list \<Rightarrow> world \<times> string list" where
  "stamp_delivered w [] = (w, [])"
| "stamp_delivered w (notif # rest) =
     (case now w of
        (stamp, w1) \<Rightarrow>
          (case stamp_delivered w1 rest of
             (w2, out) \<Rightarrow> (w2, (notif @ ''Delivered: '' @ take 16 stamp @ [NL]) # out)))"

definition mark_delivered :: "world \<Rightarrow> string \<Rightarrow> error + world" where
  "mark_delivered w who =
     (case notifications w of
        None \<Rightarrow> Inr w
      | Some text \<Rightarrow>
          (let content = read_text text in
           case pending_section content of
             None \<Rightarrow> Inr w
           | Some pending_content \<Rightarrow>
               if \<not> plain_name who then Inl (OutsideModel who)
               else
                 (let hdr = ''### @'' @ who @ [NL];
                      agent_notifs = map (\<lambda>body. hdr @ body) (find_entries hdr pending_content)
                  in if agent_notifs = [] then Inr w
                     else
                       (let remaining = foldl (\<lambda>text notif. replace notif [] text)
                                              pending_content agent_notifs;
                            delivered_content =
                              (case split_first ''## Delivered\<newline>\<newline>'' content of
                                 None \<Rightarrow> []
                               | Some (before, rest) \<Rightarrow> rest)
                        in case stamp_delivered w agent_notifs of
                             (w1, delivered_notifs) \<Rightarrow>
                               Inr (w1\<lparr>notifications :=
                                      Some (''## Pending\<newline>\<newline>'' @ remaining
                                            @ ''## Delivered'' @ [NL, NL]
                                            @ concat delivered_notifs
                                            @ delivered_content)\<rparr>)))))"











section \<open>A small workspace\<close>

text \<open>
  One task, as \<open>create_task\<close> writes it, in \<open>inbox\<close>; the other status directories are
  empty, there is no ledger yet.
\<close>

definition demo_task :: Task where
  "demo_task =
     \<lparr>task_id = ''task-001'', title = ''Add login'', description = ''Implement OAuth'',
      status = ''inbox'', priority = ''P2'', assigned = [], subscribers = [], tags = [],
      created = ''2026-02-02T14:30:00'', updated = ''2026-02-02T14:30:00'',
      prd = None, plan = None, pr = None, thread = []\<rparr>"

definition demo_world :: world where
  "demo_world =
     \<lparr>workspace = ''workspace'',
      dirs = (\<lambda>st. if st \<in> set statuses
                   then Some (if st = ''inbox'' then [(''task-001.md'', to_markdown demo_task)]
                              else [])
                   else None),
      activity_log = [],
      notifications = None,
      clock = (\<lambda>n. ''2026-02-02T14:30:00''),
      ticks = 0\<rparr>"







section \<open>Occurrences of a literal in a text\<close>

text \<open>
  A character that the literal does not have splits the search: an occurrence lies on one
  side of it.
\<close>

lemma sublist_foreign:
  assumes "c \<notin> set D"
  shows "sublist D (a @ c # b) \<longleftrightarrow> sublist D a \<or> sublist D b"
proof -
  have p: "prefix D (c # b) \<longleftrightarrow> D = []"
    using assms by (auto simp: prefix_Cons)
  have s: "(\<exists>xs1 xs2. D = xs1 @ xs2 \<and> suffix xs1 a \<and> prefix xs2 (c # b)) \<longleftrightarrow> suffix D a"
  proof
    assume "\<exists>xs1 xs2. D = xs1 @ xs2 \<and> suffix xs1 a \<and> prefix xs2 (c # b)"
    then obtain xs1 xs2 where d: "D = xs1 @ xs2" and s1: "suffix xs1 a" and p2: "prefix xs2 (c # b)"
      by blast
    from p2 d assms have "xs2 = []"
      by (auto simp: prefix_Cons)
    with d s1 show "suffix D a" by simp
  next
    assume "suffix D a"
    then have "D = D @ [] \<and> suffix D a \<and> prefix [] (c # b)" by simp
    then show "\<exists>xs1 xs2. D = xs1 @ xs2 \<and> suffix xs1 a \<and> prefix xs2 (c # b)" by blast
  qed
  have e: "D = [] \<Longrightarrow> sublist D a" by simp
  show ?thesis
    unfolding sublist_append sublist_Cons_right p s
    using e by auto
qed

lemma sublist_foreign_Cons:
  assumes "c \<notin> set D" and "D \<noteq> []"
  shows "sublist D (c # b) \<longleftrightarrow> sublist D b"
  using sublist_foreign [OF assms(1), of "[]" b] assms(2) by simp

lemma sublist_foreign_snoc:
  assumes "c \<notin> set D" and "D \<noteq> []"
  shows "sublist D (a @ [c]) \<longleftrightarrow> sublist D a"
  using sublist_foreign [OF assms(1), of a "[]"] assms(2) by simp

lemma split_first_Some: "split_first pat s = Some (b, a) \<Longrightarrow> s = b @ pat @ a"
proof (induction s arbitrary: b)
  case Nil
  then show ?case by (simp split: if_splits)
next
  case (Cons c cs)
  show ?case
  proof (cases "prefix pat (c # cs)")
    case True
    with Cons.prems have "b = []" "a = drop (length pat) (c # cs)" by auto
    with True show ?thesis
      by (metis append_Nil append_take_drop_id prefix_def append_eq_conv_conj)
  next
    case False
    with Cons.prems obtain b' where "split_first pat cs = Some (b', a)" "b = c # b'"
      by auto
    with Cons.IH show ?thesis by simp
  qed
qed

lemma split_first_None_iff:
  assumes "pat \<noteq> []"
  shows "split_first pat s = None \<longleftrightarrow> \<not> sublist pat s"
  using assms
proof (induction s)
  case Nil
  then show ?case by simp
next
  case (Cons c cs)
  then show ?case
    by (cases pat) (auto simp: sublist_Cons_right)
qed

lemma split_first_rest_sublist:
  "split_first pat s = Some (b, a) \<Longrightarrow> sublist a s"
  by (metis split_first_Some sublist_appendI sublist_order.dual_order.trans sublist_append_leftI sublist_order.order.refl)

lemma replace_from_free:
  assumes "c \<notin> set D" and "\<not> sublist D mid"
  shows "\<not> sublist D (p @ s) \<Longrightarrow> \<not> sublist D (p @ replace_from old (old @ c # mid @ [c]) s)"
proof (induction old "old @ c # mid @ [c]" s arbitrary: p rule: replace_from.induct)
  case (1 old)
  then show ?case by simp
next
  case (2 old ch cs)
  show ?case
  proof (cases "old \<noteq> [] \<and> prefix old (ch # cs)")
    case True
    then obtain rest where r: "ch # cs = old @ rest"
      by (auto simp: prefix_def)
    then have d: "drop (length old) (ch # cs) = rest"
      by (metis append_eq_conv_conj)
    from "2.prems" r have n1: "\<not> sublist D (p @ old)"
      by (metis append.assoc sublist_appendI sublist_order.order.trans sublist_append_rightI sublist_order.order.refl)
    from "2.prems" r have "\<not> sublist D ([] @ rest)"
      by (metis append.assoc append_Nil sublist_appendI sublist_order.order.trans sublist_append_leftI sublist_order.order.refl)
    with "2.hyps"(1) [OF True, of "[]"] d
    have n3: "\<not> sublist D (replace_from old (old @ c # mid @ [c]) rest)"
      by simp
    have "p @ replace_from old (old @ c # mid @ [c]) (ch # cs)
            = (p @ old) @ c # (mid @ c # replace_from old (old @ c # mid @ [c]) rest)"
      using True d by simp
    then show ?thesis
      using n1 n3 assms by (simp only: sublist_foreign [OF assms(1)]) simp
  next
    case False
    from "2.prems" have "\<not> sublist D ((p @ [ch]) @ cs)" by simp
    from "2.hyps"(2) [OF False this] False show ?thesis
      by auto
  qed
qed


lemma sublist_foreign2:
  assumes "c2 \<notin> set D" and "D \<noteq> []" and "last D \<noteq> c1"
  shows "sublist D (a @ c1 # c2 # b) \<longleftrightarrow> sublist D a \<or> sublist D b"
proof -
  have "sublist (rev D) (c1 # rev a) \<longleftrightarrow> sublist (rev D) (rev a)"
    using assms(2,3) by (cases "rev D") (auto simp: sublist_Cons_right last_rev hd_rev)
  then have "sublist D (a @ [c1]) \<longleftrightarrow> sublist D a"
    by (metis rev.simps(2) rev_rev_ident sublist_rev)
  moreover have "sublist D ((a @ [c1]) @ c2 # b) \<longleftrightarrow> sublist D (a @ [c1]) \<or> sublist D b"
    by (rule sublist_foreign [OF assms(1)])
  ultimately show ?thesis by simp
qed

lemma find_entries_Nil_iff:
  assumes "hdr \<noteq> []"
  shows "find_entries hdr s = [] \<longleftrightarrow> \<not> sublist hdr s"
  using assms
proof (induction hdr s rule: find_entries.induct)
  case (1 hdr)
  then show ?case by simp
next
  case (2 hdr c cs)
  then show ?case
    by (cases hdr) (auto simp: sublist_Cons_right split: prod.splits)
qed

section \<open>Properties of the task store\<close>

lemma find_task_file_None:
  "find_task_file w tid = None \<longleftrightarrow> (\<forall>st \<in> set statuses. lookup_file w st (tid @ ''.md'') = None)"
  by (auto simp: find_task_file_def find_None_iff)

text \<open>
  C4. \<open>move_task\<close> raises \<open>ValueError("Invalid status: ...")\<close> when the new status is not
  one of the ten statuses, whatever the id; it raises \<open>ValueError("Task ... not found")\<close>
  when the status is valid and no status directory holds a file for the id. In both cases
  the workspace is left exactly as it was: no file is created, moved or deleted.
\<close>

theorem move_task_errors:
  "length statuses = 10 \<and>
   (new_status \<notin> set statuses \<longrightarrow>
      move_task w tid new_status = (w, Inl (ValueError (''Invalid status: '' @ new_status)))) \<and>
   (new_status \<in> set statuses \<and> (\<forall>st \<in> set statuses. lookup_file w st (tid @ ''.md'') = None) \<longrightarrow>
      move_task w tid new_status = (w, Inl (ValueError (''Task '' @ tid @ '' not found''))))"
proof (intro conjI impI)
  show "length statuses = 10"
    by (simp add: statuses_def)
next
  assume "new_status \<notin> set statuses"
  then show "move_task w tid new_status = (w, Inl (ValueError (''Invalid status: '' @ new_status)))"
    by (simp add: move_task_def)
next
  assume a: "new_status \<in> set statuses \<and> (\<forall>st \<in> set statuses. lookup_file w st (tid @ ''.md'') = None)"
  then have "find_task_file w tid = None"
    by (simp add: find_task_file_None)
  with a show "move_task w tid new_status = (w, Inl (ValueError (''Task '' @ tid @ '' not found'')))"
    by (simp add: move_task_def)
qed

theorem move_task_errors_witness:
  "move_task demo_world ''task-001'' ''not-a-status''
     = (demo_world, Inl (ValueError ''Invalid status: not-a-status'')) \<and>
   move_task demo_world ''task-999'' ''blocked''
     = (demo_world, Inl (ValueError ''Task task-999 not found''))"
proof
  have "''not-a-status'' \<notin> set statuses"
    by (simp add: statuses_def)
  then show "move_task demo_world ''task-001'' ''not-a-status''
               = (demo_world, Inl (ValueError ''Invalid status: not-a-status''))"
    using move_task_errors [of "''not-a-status''" demo_world "''task-001''"] by simp
next
  have "''blocked'' \<in> set statuses"
    by (simp add: statuses_def)
  moreover have "\<forall>st \<in> set statuses. lookup_file demo_world st (''task-999'' @ ''.md'') = None"
    by (simp add: statuses_def lookup_file_def demo_world_def)
  ultimately show "move_task demo_world ''task-999'' ''blocked''
                     = (demo_world, Inl (ValueError ''Task task-999 not found''))"
    using move_task_errors [of "''blocked''" demo_world "''task-999''"] by simp
qed

text \<open>
  C3. Moving a task to the status directory it is already in: the rewritten file is the
  old file, and removing the old file removes it. \<open>move_task\<close> returns the task, and the
  store no longer has it.
\<close>

theorem move_task_same_status_loses_task:
  "snd (move_task demo_world ''task-001'' ''inbox'')
     = Inr (demo_task\<lparr>status := ''inbox'', updated := ''2026-02-02T14:30:00''\<rparr>) \<and>
   find_task (fst (move_task demo_world ''task-001'' ''inbox'')) ''task-001'' = Inr None \<and>
   dirs (fst (move_task demo_world ''task-001'' ''inbox'')) ''inbox'' = Some []"
  by code_simp

section \<open>Properties of the task ids\<close>





































section \<open>Properties of the search for work\<close>

















end
